theory Spec2Isabelle
  imports Main "HOL-Library.Sublist" "HOL-Library.Word"
begin

section \<open>Python strings and bytes\<close>

text \<open>
  A Python \<open>str\<close> is a sequence of Unicode code points, so it is modelled as a list of
  natural numbers (its length counts code points, as \<open>len\<close> does). \<open>str\<close> turns an ASCII
  literal of the source into that representation. A \<open>bytes\<close> object is a list of 8-bit
  words.
\<close>

type_synonym pystr = "nat list"

type_synonym pybytes = "8 word list"

definition str :: "string \<Rightarrow> pystr" where
  "str s = map of_char s"

datatype error = ValueError | UnicodeEncodeError

text \<open>
  \<open>str.strip()\<close> without argument removes the leading and trailing characters that
  CPython classifies as whitespace (\<open>Py_UNICODE_ISSPACE\<close>).
\<close>

definition isspace :: "nat \<Rightarrow> bool" where
  "isspace c \<longleftrightarrow>
     (0x09 \<le> c \<and> c \<le> 0x0D) \<or> (0x1C \<le> c \<and> c \<le> 0x20) \<or> c = 0x85 \<or> c = 0xA0 \<or>
     c = 0x1680 \<or> (0x2000 \<le> c \<and> c \<le> 0x200A) \<or> c = 0x2028 \<or> c = 0x2029 \<or>
     c = 0x202F \<or> c = 0x205F \<or> c = 0x3000"

definition lstrip :: "pystr \<Rightarrow> pystr" where
  "lstrip s = dropWhile isspace s"

definition rstrip :: "pystr \<Rightarrow> pystr" where
  "rstrip s = rev (dropWhile isspace (rev s))"

definition strip :: "pystr \<Rightarrow> pystr" where
  "strip s = rstrip (lstrip s)"

text \<open>\<open>line.startswith('#')\<close>: the prefix test.\<close>

definition startswith :: "pystr \<Rightarrow> pystr \<Rightarrow> bool" where
  "startswith s p \<longleftrightarrow> take (length p) s = p"

text \<open>
  \<open>s.split(sep, 1)\<close> for a one-character separator: at most one split, at the first
  occurrence of the separator; a string without the separator comes back alone.
\<close>

definition split1 :: "nat \<Rightarrow> pystr \<Rightarrow> pystr list" where
  "split1 sep s =
     (if sep \<in> set s then [takeWhile (\<lambda>c. c \<noteq> sep) s, tl (dropWhile (\<lambda>c. c \<noteq> sep) s)]
      else [s])"

text \<open>
  \<open>str.encode()\<close>: UTF-8. A surrogate code point (U+D800 to U+DFFF) cannot be encoded
  and raises \<open>UnicodeEncodeError\<close>.
\<close>

definition utf8 :: "nat \<Rightarrow> pybytes" where
  "utf8 c =
     (if c < 0x80 then [of_nat c]
      else if c < 0x800 then [of_nat (0xC0 + c div 0x40), of_nat (0x80 + c mod 0x40)]
      else if c < 0x10000 then
        [of_nat (0xE0 + c div 0x1000), of_nat (0x80 + c div 0x40 mod 0x40),
         of_nat (0x80 + c mod 0x40)]
      else
        [of_nat (0xF0 + c div 0x40000), of_nat (0x80 + c div 0x1000 mod 0x40),
         of_nat (0x80 + c div 0x40 mod 0x40), of_nat (0x80 + c mod 0x40)])"

definition surrogate :: "nat \<Rightarrow> bool" where
  "surrogate c \<longleftrightarrow> 0xD800 \<le> c \<and> c \<le> 0xDFFF"

fun encode :: "pystr \<Rightarrow> error + pybytes" where
  "encode [] = Inr []"
| "encode (c # cs) =
     (if surrogate c then Inl UnicodeEncodeError
      else case encode cs of Inl e \<Rightarrow> Inl e | Inr bs \<Rightarrow> Inr (utf8 c @ bs))"

section \<open>Reading the environment file\<close>

text \<open>
  \<open>open(env_file, 'r')\<close> opens the file in text mode with universal newlines: each of
  \<open>\r\n\<close>, \<open>\r\<close> and \<open>\n\<close> ends a line and is handed to the program as \<open>\n\<close>.
\<close>

fun universal_newlines :: "pystr \<Rightarrow> pystr" where
  "universal_newlines [] = []"
| "universal_newlines [c] = [if c = 13 then 10 else c]"
| "universal_newlines (c # d # cs) =
     (if c = 13 \<and> d = 10 then 10 # universal_newlines cs
      else if c = 13 then 10 # universal_newlines (d # cs)
      else c # universal_newlines (d # cs))"

text \<open>
  \<open>for line in f\<close> yields the lines in order, each with its terminating \<open>\n\<close>; a last
  line without terminator is yielded as it is, and an empty rest yields nothing.
  \<open>cur\<close> holds the part of the current line read so far.
\<close>

fun lines_from :: "pystr \<Rightarrow> pystr \<Rightarrow> pystr list" where
  "lines_from cur [] = (if cur = [] then [] else [cur])"
| "lines_from cur (c # cs) =
     (if c = 10 then (cur @ [c]) # lines_from [] cs else lines_from (cur @ [c]) cs)"

definition readlines :: "pystr \<Rightarrow> pystr list" where
  "readlines text = lines_from [] (universal_newlines text)"

section \<open>The config loader\<close>

type_synonym env_vars = "pystr \<rightharpoonup> pystr"

text \<open>
  The body of the loop of \<open>load_env_file\<close>, for one line of the file. The unpacking
  \<open>key, value = line.split('=', 1)\<close> raises \<open>ValueError\<close> unless the split has exactly
  two parts.
\<close>

definition process_line :: "env_vars \<Rightarrow> pystr \<Rightarrow> error + env_vars" where
  "process_line env_vars raw =
     (let line = strip raw in
      if line \<noteq> [] \<and> \<not> startswith line (str ''#'') then
        if 61 \<in> set line then
          (case split1 61 line of
             [key, val] \<Rightarrow> Inr (env_vars(strip key \<mapsto> strip val))
           | _ \<Rightarrow> Inl ValueError)
        else Inr env_vars
      else Inr env_vars)"

fun process_lines :: "env_vars \<Rightarrow> pystr list \<Rightarrow> error + env_vars" where
  "process_lines env_vars [] = Inr env_vars"
| "process_lines env_vars (raw # rest) =
     (case process_line env_vars raw of
        Inl e \<Rightarrow> Inl e
      | Inr env_vars' \<Rightarrow> process_lines env_vars' rest)"

text \<open>The dictionary literal of the \<open>else\<close> branch of \<open>load_env_file\<close>.\<close>

definition default_env_vars :: env_vars where
  "default_env_vars =
     [str ''N8N_API_BASE_URL'' \<mapsto> str ''http://localhost:5678/api/v1'',
      str ''N8N_API_KEY'' \<mapsto> str ''your-api-key-here'',
      str ''REFRESH_INTERVAL'' \<mapsto> str ''30000'',
      str ''DEBUG_MODE'' \<mapsto> str ''false'']"

text \<open>
  \<open>load_env_file\<close>. The file system is what \<open>env_file.exists()\<close> and reading the file
  give: \<open>None\<close> when \<open>webapp.env\<close> does not exist, \<open>Some text\<close> with its decoded contents
  when it does. \<open>env_file\<close> is the path as \<open>print\<close> shows it. The result carries the
  mapping and the lines printed to standard output.
\<close>

definition load_env_file :: "pystr \<Rightarrow> pystr option \<Rightarrow> error + (env_vars \<times> pystr list)" where
  "load_env_file env_file contents =
     (case contents of
        Some text \<Rightarrow>
          (case process_lines Map.empty (readlines text) of
             Inl e \<Rightarrow> Inl e
           | Inr env_vars \<Rightarrow> Inr (env_vars, []))
      | None \<Rightarrow>
          Inr (default_env_vars,
               [str ''Warning: '' @ env_file @ str '' not found. Using default values.'']))"

section \<open>The request handler\<close>

text \<open>
  The f-string of \<open>do_GET\<close>: the payload for a mapping. \<open>env_vars.get(key, default)\<close> is
  the value of the key, or the default when the key is absent; 39 is the single quote and
  10 the newline.
\<close>

definition get :: "env_vars \<Rightarrow> pystr \<Rightarrow> pystr \<Rightarrow> pystr" where
  "get env_vars key dflt = (case env_vars key of Some v \<Rightarrow> v | None \<Rightarrow> dflt)"

definition config_content :: "env_vars \<Rightarrow> pystr" where
  "config_content env_vars =
     str ''// Auto-generated configuration from webapp.env'' @ [10] @
     str ''// This file is generated at server startup'' @ [10] @
     [10] @
     str ''window.ENV = {'' @ [10] @
     str ''    N8N_API_BASE_URL: '' @ [39] @
       get env_vars (str ''N8N_API_BASE_URL'') (str ''http://localhost:5678/api/v1'') @
       [39] @ str '','' @ [10] @
     str ''    N8N_API_KEY: '' @ [39] @
       get env_vars (str ''N8N_API_KEY'') (str ''your-api-key-here'') @
       [39] @ str '','' @ [10] @
     str ''    REFRESH_INTERVAL: '' @ [39] @
       get env_vars (str ''REFRESH_INTERVAL'') (str ''30000'') @
       [39] @ str '','' @ [10] @
     str ''    DEBUG_MODE: '' @ [39] @
       get env_vars (str ''DEBUG_MODE'') (str ''false'') @
       [39] @ [10] @
     str ''};'' @ [10]"

text \<open>
  What a handler writes goes through the API of \<open>http.server\<close>. \<open>send_response_only\<close>
  and \<open>send_header\<close> append the status line and a header line to the headers buffer,
  \<open>end_headers\<close> of the base class appends the blank line and flushes the buffer to
  \<open>wfile\<close>; each of the three does so only when \<open>request_version\<close> is not \<open>HTTP/0.9\<close>,
  the version that the library gives a request line without version. \<open>wfile.write\<close>
  appends the body. A header value is what the caller passed: a string or an integer.
  The log line that \<open>send_response\<close> writes to standard error is left out.
\<close>

datatype hval = StrVal pystr | IntVal int

datatype item = StatusLine nat | HeaderLine pystr hval | EndHeaders | Body pybytes

record handler =
  request_version :: pystr
  path :: pystr
  headers_buffer :: "item list"
  wfile :: "item list"

text \<open>
  The world outside the handler when a request is served: the path and the contents of
  \<open>webapp.env\<close>, the two strings that \<open>send_response\<close> of the library puts into the
  \<open>Server\<close> and \<open>Date\<close> headers, and what the library's static file serving decides for a
  request path (the status, the headers it sends for it, the body).
\<close>

record world =
  env_file_path :: pystr
  env_file_contents :: "pystr option"
  version_string :: pystr
  date_time_string :: pystr
  static_file :: "pystr \<Rightarrow> nat \<times> (pystr \<times> hval) list \<times> pybytes"

definition send_response_only :: "nat \<Rightarrow> handler \<Rightarrow> handler" where
  "send_response_only code h =
     (if request_version h \<noteq> str ''HTTP/0.9''
      then h\<lparr>headers_buffer := headers_buffer h @ [StatusLine code]\<rparr>
      else h)"

definition send_header :: "pystr \<Rightarrow> hval \<Rightarrow> handler \<Rightarrow> handler" where
  "send_header keyword v h =
     (if request_version h \<noteq> str ''HTTP/0.9''
      then h\<lparr>headers_buffer := headers_buffer h @ [HeaderLine keyword v]\<rparr>
      else h)"

definition send_response :: "world \<Rightarrow> nat \<Rightarrow> handler \<Rightarrow> handler" where
  "send_response w code h =
     send_header (str ''Date'') (StrVal (date_time_string w))
       (send_header (str ''Server'') (StrVal (version_string w))
          (send_response_only code h))"

definition flush_headers :: "handler \<Rightarrow> handler" where
  "flush_headers h = h\<lparr>wfile := wfile h @ headers_buffer h, headers_buffer := []\<rparr>"

definition base_end_headers :: "handler \<Rightarrow> handler" where
  "base_end_headers h =
     (if request_version h \<noteq> str ''HTTP/0.9''
      then flush_headers (h\<lparr>headers_buffer := headers_buffer h @ [EndHeaders]\<rparr>)
      else h)"

definition wfile_write :: "pybytes \<Rightarrow> handler \<Rightarrow> handler" where
  "wfile_write b h = h\<lparr>wfile := wfile h @ [Body b]\<rparr>"

text \<open>\<open>ConfigInjectHandler.end_headers\<close>: three headers, then the base class.\<close>

definition end_headers :: "handler \<Rightarrow> handler" where
  "end_headers h =
     base_end_headers
       (send_header (str ''Access-Control-Allow-Headers'') (StrVal (str ''Content-Type''))
          (send_header (str ''Access-Control-Allow-Methods'') (StrVal (str ''GET, POST, OPTIONS''))
             (send_header (str ''Access-Control-Allow-Origin'') (StrVal (str ''*'')) h)))"

text \<open>
  \<open>SimpleHTTPRequestHandler.do_GET\<close> of the library, reached through \<open>super().do_GET()\<close>.
  Whatever it decides (a file, a redirect, an error such as 404), it sends the status with
  \<open>send_response\<close>, its headers with \<open>send_header\<close>, ends them with \<open>self.end_headers()\<close>
  and writes the body. \<open>self_end_headers\<close> is the method the call dispatches to.
\<close>

definition simple_do_GET :: "(handler \<Rightarrow> handler) \<Rightarrow> world \<Rightarrow> handler \<Rightarrow> handler" where
  "simple_do_GET self_end_headers w h =
     (case static_file w (path h) of
        (code, hs, body) \<Rightarrow>
          wfile_write body
            (self_end_headers
               (fold (\<lambda>(keyword, v). send_header keyword v) hs (send_response w code h))))"

text \<open>
  \<open>ConfigInjectHandler.do_GET\<close>. The result is the handler after the request and the
  lines printed meanwhile, or the exception that left the method.
\<close>

definition do_GET :: "world \<Rightarrow> handler \<Rightarrow> error + (handler \<times> pystr list)" where
  "do_GET w h =
     (if path h = str ''/config.js'' then
        (case load_env_file (env_file_path w) (env_file_contents w) of
           Inl e \<Rightarrow> Inl e
         | Inr (env_vars, printed) \<Rightarrow>
             (case encode (config_content env_vars) of
                Inl e \<Rightarrow> Inl e
              | Inr body \<Rightarrow>
                  Inr (wfile_write body
                         (end_headers
                            (send_header (str ''Content-Length'') (IntVal (int (length body)))
                               (send_header (str ''Content-type'')
                                  (StrVal (str ''application/javascript''))
                                  (send_response w 200 h)))),
                       printed)))
      else Inr (simple_do_GET end_headers w h, []))"

text \<open>
  The server creates a handler for each request it accepts and serves the requests one
  after the other. A request is given by the version and the path that the library has
  read from its request line, and by the world at the time it is served.
\<close>

definition new_handler :: "pystr \<Rightarrow> pystr \<Rightarrow> handler" where
  "new_handler v p = \<lparr>request_version = v, path = p, headers_buffer = [], wfile = []\<rparr>"

fun serve_forever ::
  "(world \<times> pystr \<times> pystr) list \<Rightarrow> (error + (handler \<times> pystr list)) list" where
  "serve_forever [] = []"
| "serve_forever ((w, v, p) # requests) = do_GET w (new_handler v p) # serve_forever requests"

section \<open>Vocabulary of the properties\<close>

text \<open>The four keys that \<open>do_GET\<close> reads from the mapping.\<close>

definition known_keys :: "pystr list" where
  "known_keys =
     [str ''N8N_API_BASE_URL'', str ''N8N_API_KEY'', str ''REFRESH_INTERVAL'', str ''DEBUG_MODE'']"

text \<open>
  The pair that a line of the file contributes to the mapping, if it contributes one:
  the line is stripped, is then neither empty nor a comment, and holds an \<open>=\<close>; the key is
  what precedes the first \<open>=\<close> and the value what follows it, both stripped.
\<close>

definition line_entry :: "pystr \<Rightarrow> (pystr \<times> pystr) option" where
  "line_entry raw =
     (let line = strip raw in
      if line \<noteq> [] \<and> \<not> startswith line (str ''#'') \<and> 61 \<in> set line
      then Some (strip (takeWhile (\<lambda>c. c \<noteq> 61) line), strip (tl (dropWhile (\<lambda>c. c \<noteq> 61) line)))
      else None)"

text \<open>
  A well-formed environment file is a sequence of lines, each an assignment \<open>KEY=VALUE\<close>,
  a comment \<open>#...\<close> or a blank line. Key, value and comment hold no line break; key and
  value have no surrounding whitespace; the key holds no \<open>=\<close> and does not start with
  \<open>#\<close>. The lines are joined by \<open>\n\<close>, and the last line may or may not end with one.
\<close>

datatype env_line = Assign pystr pystr | Comment pystr | Blank

fun line_text :: "env_line \<Rightarrow> pystr" where
  "line_text (Assign k v) = k @ 61 # v"
| "line_text (Comment c) = 35 # c"
| "line_text Blank = []"

definition one_line :: "pystr \<Rightarrow> bool" where
  "one_line s \<longleftrightarrow> 10 \<notin> set s \<and> 13 \<notin> set s"

fun wf_line :: "env_line \<Rightarrow> bool" where
  "wf_line (Assign k v) \<longleftrightarrow>
     one_line k \<and> one_line v \<and> strip k = k \<and> strip v = v \<and> 61 \<notin> set k \<and>
     \<not> startswith k (str ''#'')"
| "wf_line (Comment c) \<longleftrightarrow> one_line c"
| "wf_line Blank \<longleftrightarrow> True"

definition wf_file :: "env_line list \<Rightarrow> bool" where
  "wf_file ls \<longleftrightarrow> list_all wf_line ls"

fun join_lines :: "pystr list \<Rightarrow> pystr" where
  "join_lines [] = []"
| "join_lines [l] = l"
| "join_lines (l # l' # ls) = l @ 10 # join_lines (l' # ls)"

definition file_text :: "bool \<Rightarrow> env_line list \<Rightarrow> pystr" where
  "file_text final_newline ls =
     join_lines (map line_text ls) @ (if final_newline then [10] else [])"

fun entries :: "env_line list \<Rightarrow> (pystr \<times> pystr) list" where
  "entries [] = []"
| "entries (Assign k v # ls) = (k, v) # entries ls"
| "entries (Comment c # ls) = entries ls"
| "entries (Blank # ls) = entries ls"

text \<open>
  Text that \<open>open\<close> has decoded holds no surrogate code point, so \<open>encode\<close> accepts it.
\<close>

definition decoded :: "pystr \<Rightarrow> bool" where
  "decoded text \<longleftrightarrow> list_all (\<lambda>c. \<not> surrogate c) text"

section \<open>Stripping\<close>

lemmas py_defs = str_def strip_def lstrip_def rstrip_def isspace_def startswith_def split1_def

lemma strip_Nil: "strip [] = []"
  by (simp add: strip_def lstrip_def rstrip_def)

lemma set_strip: "set (strip s) \<subseteq> set s"
proof -
  have "set (strip s) \<subseteq> set (dropWhile isspace s)"
    unfolding strip_def lstrip_def rstrip_def
    using set_dropWhileD [of _ isspace "rev (dropWhile isspace s)"] by auto
  also have "\<dots> \<subseteq> set s"
    using set_dropWhileD [of _ isspace s] by auto
  finally show ?thesis .
qed

lemma dropWhile_all: "\<forall>x\<in>set xs. P x \<Longrightarrow> dropWhile P xs = []"
  by simp

lemma strip_append_space: "isspace c \<Longrightarrow> strip (s @ [c]) = strip s"
  by (cases "\<forall>x\<in>set s. isspace x")
    (simp_all add: strip_def lstrip_def rstrip_def dropWhile_append dropWhile_all)

lemma strip_id: "s \<noteq> [] \<Longrightarrow> \<not> isspace (hd s) \<Longrightarrow> \<not> isspace (last s) \<Longrightarrow> strip s = s"
proof -
  assume a: "s \<noteq> []" "\<not> isspace (hd s)" "\<not> isspace (last s)"
  from a have l: "dropWhile isspace s = s"
    by (simp add: dropWhile_eq_self_iff)
  from a have "dropWhile isspace (rev s) = rev s"
    by (simp add: dropWhile_eq_self_iff hd_rev)
  with l show ?thesis
    by (simp add: strip_def lstrip_def rstrip_def)
qed

lemma last_dropWhile: "dropWhile P xs \<noteq> [] \<Longrightarrow> last (dropWhile P xs) = last xs"
  by (induction xs) (auto split: if_splits)

lemma strip_ends:
  assumes "strip s \<noteq> []"
  shows "\<not> isspace (hd (strip s))" and "\<not> isspace (last (strip s))"
proof -
  let ?d = "dropWhile isspace s"
  let ?e = "dropWhile isspace (rev ?d)"
  have s: "strip s = rev ?e"
    by (simp add: strip_def lstrip_def rstrip_def)
  with assms have e: "?e \<noteq> []" by simp
  have d: "?d \<noteq> []"
  proof
    assume "?d = []"
    then have "?e = []" by (simp only: rev.simps dropWhile.simps)
    with e show False by simp
  qed
  from e have "\<not> isspace (hd ?e)" by (rule hd_dropWhile)
  then show "\<not> isspace (last (strip s))"
    using e by (simp add: s last_rev)
  from d have "\<not> isspace (hd ?d)" by (rule hd_dropWhile)
  moreover have "hd (rev ?e) = hd ?d"
    using e d by (simp add: hd_rev last_dropWhile last_rev)
  ultimately show "\<not> isspace (hd (strip s))"
    by (simp add: s)
qed

lemma strip_fixed_ends:
  assumes "strip s = s" and "s \<noteq> []"
  shows "\<not> isspace (hd s)" and "\<not> isspace (last s)"
  using strip_ends [of s] assms by simp_all

lemma strip_strip: "strip (strip s) = strip s"
proof (cases "strip s = []")
  case True
  then show ?thesis by (simp add: strip_Nil)
next
  case False
  then show ?thesis by (simp add: strip_id strip_ends)
qed

lemma not_isspace_61: "\<not> isspace 61" and not_isspace_35: "\<not> isspace 35"
  and isspace_10: "isspace 10" and isspace_13: "isspace 13"
  by (simp_all add: isspace_def)

lemma strip_assignment:
  assumes "strip k = k" and "strip v = v"
  shows "strip (k @ 61 # v) = k @ 61 # v"
proof (rule strip_id)
  show "k @ 61 # v \<noteq> []" by simp
  show "\<not> isspace (hd (k @ 61 # v))"
    using strip_fixed_ends(1) [OF assms(1)] by (cases k) (simp_all add: not_isspace_61)
  show "\<not> isspace (last (k @ 61 # v))"
    using strip_fixed_ends(2) [OF assms(2)] by (cases "v = []") (simp_all add: not_isspace_61)
qed

lemma mem_strip_iff: "\<not> isspace c \<Longrightarrow> c \<in> set (strip s) \<longleftrightarrow> c \<in> set s"
proof
  assume "c \<in> set (strip s)"
  then show "c \<in> set s" using set_strip by blast
next
  assume n: "\<not> isspace c" and c: "c \<in> set s"
  have a: "\<And>xs. c \<in> set xs \<Longrightarrow> c \<in> set (dropWhile isspace xs)"
  proof -
    fix xs assume "c \<in> set xs"
    then show "c \<in> set (dropWhile isspace xs)"
      using n by (induction xs) auto
  qed
  from c have "c \<in> set (rev (dropWhile isspace s))" by (simp add: a)
  then have "c \<in> set (dropWhile isspace (rev (dropWhile isspace s)))" by (rule a)
  then show "c \<in> set (strip s)"
    by (simp add: strip_def lstrip_def rstrip_def)
qed

section \<open>The loader, line by line\<close>

lemma takeWhile_first: "x \<notin> set k \<Longrightarrow> takeWhile (\<lambda>c. c \<noteq> x) (k @ x # v) = k"
  by (induction k) auto

lemma dropWhile_first: "x \<notin> set k \<Longrightarrow> dropWhile (\<lambda>c. c \<noteq> x) (k @ x # v) = x # v"
  by (induction k) auto

lemma first_split: "x \<in> set s \<Longrightarrow> s = takeWhile (\<lambda>c. c \<noteq> x) s @ x # tl (dropWhile (\<lambda>c. c \<noteq> x) s)"
  by (induction s) auto

lemma process_line_entry:
  "process_line env_vars raw =
     Inr (case line_entry raw of None \<Rightarrow> env_vars | Some (k, v) \<Rightarrow> env_vars(k \<mapsto> v))"
  by (simp add: process_line_def line_entry_def split1_def Let_def)

lemma process_lines_entries:
  "process_lines env_vars raws =
     Inr (fold (\<lambda>(k, v) m. m(k \<mapsto> v)) (List.map_filter line_entry raws) env_vars)"
  by (induction raws arbitrary: env_vars)
    (auto simp: process_line_entry split: option.splits)

lemma fold_upd_last:
  "k \<notin> fst ` set es2 \<Longrightarrow>
   fold (\<lambda>(k, v) m. m(k \<mapsto> v)) (es1 @ (k, v) # es2) (m :: env_vars) k = Some v"
proof -
  have other: "\<And>m :: env_vars. k \<notin> fst ` set es2 \<Longrightarrow> fold (\<lambda>(k, v) m. m(k \<mapsto> v)) es2 m k = m k"
    by (induction es2) (auto simp: image_iff)
  assume "k \<notin> fst ` set es2"
  then show ?thesis by (simp add: other)
qed

lemma universal_newlines_id: "13 \<notin> set t \<Longrightarrow> universal_newlines t = t"
  by (induction t rule: universal_newlines.induct) auto

lemma lines_from_line:
  "10 \<notin> set l \<Longrightarrow> lines_from cur (l @ 10 # rest) = (cur @ l @ [10]) # lines_from [] rest"
  by (induction l arbitrary: cur) auto

lemma lines_from_last:
  "10 \<notin> set l \<Longrightarrow> lines_from cur l = (if cur @ l = [] then [] else [cur @ l])"
  by (induction l arbitrary: cur) auto

lemma line_entry_newline: "line_entry (s @ [10]) = line_entry s"
  by (simp add: line_entry_def strip_append_space isspace_10)

lemma line_entry_Nil: "line_entry [] = None"
  by (simp add: line_entry_def strip_Nil)

lemma line_entry_line_text:
  "wf_line l \<Longrightarrow> line_entry (line_text l) = (case l of Assign k v \<Rightarrow> Some (k, v) | _ \<Rightarrow> None)"
proof (cases l)
  case (Assign k v)
  assume "wf_line l"
  with Assign have w: "strip k = k" "strip v = v" "61 \<notin> set k" "\<not> startswith k (str ''#'')"
    by simp_all
  have s: "strip (k @ 61 # v) = k @ 61 # v"
    using w(1,2) by (rule strip_assignment)
  have h: "\<not> startswith (k @ 61 # v) (str ''#'')"
    using w(4) by (cases k) (simp_all add: startswith_def str_def)
  show ?thesis
    using w h by (simp add: Assign line_entry_def s takeWhile_first dropWhile_first)
next
  case (Comment c)
  have "strip (35 # c) = 35 # rstrip c"
    by (simp add: strip_def lstrip_def rstrip_def not_isspace_35 dropWhile_append)
  then show ?thesis
    by (simp add: Comment line_entry_def startswith_def str_def)
next
  case Blank
  then show ?thesis by (simp add: line_entry_Nil)
qed

section \<open>Well-formed files\<close>

lemma map_filter_joined:
  assumes "\<forall>l\<in>set xs. 10 \<notin> set l" and "tail = [] \<or> tail = [10]"
  shows "List.map_filter line_entry (lines_from [] (join_lines xs @ tail)) =
         List.map_filter line_entry xs"
  using assms
proof (induction xs rule: join_lines.induct)
  case 1
  have "line_entry [10] = None"
    using line_entry_newline [of "[]"] by (simp add: line_entry_Nil)
  with 1 show ?case by auto
next
  case (2 l)
  then have l: "10 \<notin> set l" by simp
  from 2(2) show ?case
  proof
    assume "tail = []"
    then show ?thesis
      using l by (simp add: lines_from_last line_entry_Nil)
  next
    assume "tail = [10]"
    then show ?thesis
      using lines_from_line [OF l, of "[]" "[]"]
      by (simp add: line_entry_newline split: option.splits)
  qed
next
  case (3 l l' ls)
  then have l: "10 \<notin> set l" by simp
  have "lines_from [] (join_lines (l # l' # ls) @ tail) =
        (l @ [10]) # lines_from [] (join_lines (l' # ls) @ tail)"
    using lines_from_line [OF l, of "[]" "join_lines (l' # ls) @ tail"] by simp
  moreover have "List.map_filter line_entry (lines_from [] (join_lines (l' # ls) @ tail)) =
      List.map_filter line_entry (l' # ls)"
    using 3 by simp
  ultimately show ?case
    by (simp add: line_entry_newline split: option.splits)
qed

lemma line_text_one_line: "wf_line l \<Longrightarrow> one_line (line_text l)"
  by (cases l) (auto simp: one_line_def)

lemma join_lines_no_cr: "\<forall>l\<in>set xs. 13 \<notin> set l \<Longrightarrow> 13 \<notin> set (join_lines xs)"
  by (induction xs rule: join_lines.induct) auto

lemma map_filter_line_text:
  "wf_file ls \<Longrightarrow> List.map_filter line_entry (map line_text ls) = entries ls"
proof (induction ls)
  case Nil
  show ?case by simp
next
  case (Cons l ls)
  then have l: "wf_line l" and "wf_file ls" by (simp_all add: wf_file_def)
  then have "List.map_filter line_entry (map line_text ls) = entries ls"
    using Cons.IH by simp
  then show ?case
    using line_entry_line_text [OF l] by (cases l) simp_all
qed

lemma entries_file_text:
  assumes "wf_file ls"
  shows "List.map_filter line_entry (readlines (file_text nl ls)) = entries ls"
proof -
  have one: "\<forall>l\<in>set (map line_text ls). one_line l"
    using assms by (auto simp: wf_file_def list_all_iff line_text_one_line)
  then have "13 \<notin> set (join_lines (map line_text ls))"
    by (intro join_lines_no_cr) (simp add: one_line_def)
  then have "universal_newlines (file_text nl ls) = file_text nl ls"
    by (intro universal_newlines_id) (simp add: file_text_def)
  moreover have "List.map_filter line_entry (lines_from [] (file_text nl ls)) =
      List.map_filter line_entry (map line_text ls)"
    unfolding file_text_def using one
    by (intro map_filter_joined) (simp_all add: one_line_def)
  ultimately show ?thesis
    by (simp add: readlines_def map_filter_line_text [OF assms])
qed

lemma entries_split:
  "entries (ls1 @ Assign k v # ls2) = entries ls1 @ (k, v) # entries ls2"
  by (induction ls1 rule: entries.induct) simp_all

lemma entries_keys: "k \<in> fst ` set (entries ls) \<Longrightarrow> \<exists>v. Assign k v \<in> set ls"
  by (induction ls rule: entries.induct) auto

section \<open>The payload\<close>

lemma get_restrict: "k \<in> S \<Longrightarrow> get (m |` S) k d = get m k d"
  by (simp add: get_def)

lemma config_content_restrict:
  "config_content (env_vars |` set known_keys) = config_content env_vars"
  by (simp add: config_content_def known_keys_def get_restrict)

lemma config_content_holds:
  assumes "K \<in> set known_keys" and "env_vars K = Some v"
  shows "sublist (K @ str '': '' @ [39] @ v @ [39]) (config_content env_vars)"
proof -
  have split: "\<And>pre post. config_content env_vars = pre @ (K @ str '': '' @ [39] @ v @ [39]) @ post
     \<Longrightarrow> ?thesis"
    by (auto simp: sublist_def)
  from assms(1) consider "K = str ''N8N_API_BASE_URL''" | "K = str ''N8N_API_KEY''"
    | "K = str ''REFRESH_INTERVAL''" | "K = str ''DEBUG_MODE''"
    by (auto simp: known_keys_def)
  then show ?thesis
  proof cases
    case 1
    show ?thesis
      by (rule split [of "str ''// Auto-generated configuration from webapp.env'' @ [10] @
         str ''// This file is generated at server startup'' @ [10] @ [10] @
         str ''window.ENV = {'' @ [10] @ str ''    ''"])
        (use assms(2) in \<open>simp add: 1 config_content_def get_def str_def\<close>)
  next
    case 2
    show ?thesis
      by (rule split [of "str ''// Auto-generated configuration from webapp.env'' @ [10] @
         str ''// This file is generated at server startup'' @ [10] @ [10] @
         str ''window.ENV = {'' @ [10] @
         str ''    N8N_API_BASE_URL: '' @ [39] @
         get env_vars (str ''N8N_API_BASE_URL'') (str ''http://localhost:5678/api/v1'') @
         [39] @ str '','' @ [10] @ str ''    ''"])
        (use assms(2) in \<open>simp add: 2 config_content_def get_def str_def\<close>)
  next
    case 3
    show ?thesis
      by (rule split [of "str ''// Auto-generated configuration from webapp.env'' @ [10] @
         str ''// This file is generated at server startup'' @ [10] @ [10] @
         str ''window.ENV = {'' @ [10] @
         str ''    N8N_API_BASE_URL: '' @ [39] @
         get env_vars (str ''N8N_API_BASE_URL'') (str ''http://localhost:5678/api/v1'') @
         [39] @ str '','' @ [10] @
         str ''    N8N_API_KEY: '' @ [39] @
         get env_vars (str ''N8N_API_KEY'') (str ''your-api-key-here'') @
         [39] @ str '','' @ [10] @ str ''    ''"])
        (use assms(2) in \<open>simp add: 3 config_content_def get_def str_def\<close>)
  next
    case 4
    show ?thesis
      by (rule split [of "str ''// Auto-generated configuration from webapp.env'' @ [10] @
         str ''// This file is generated at server startup'' @ [10] @ [10] @
         str ''window.ENV = {'' @ [10] @
         str ''    N8N_API_BASE_URL: '' @ [39] @
         get env_vars (str ''N8N_API_BASE_URL'') (str ''http://localhost:5678/api/v1'') @
         [39] @ str '','' @ [10] @
         str ''    N8N_API_KEY: '' @ [39] @
         get env_vars (str ''N8N_API_KEY'') (str ''your-api-key-here'') @
         [39] @ str '','' @ [10] @
         str ''    REFRESH_INTERVAL: '' @ [39] @
         get env_vars (str ''REFRESH_INTERVAL'') (str ''30000'') @
         [39] @ str '','' @ [10] @ str ''    ''"])
        (use assms(2) in \<open>simp add: 4 config_content_def get_def str_def\<close>)
  qed
qed

lemma load_env_file_entries:
  "load_env_file env_file (Some text) =
     Inr (fold (\<lambda>(k, v) m. m(k \<mapsto> v)) (List.map_filter line_entry (readlines text)) Map.empty, [])"
  by (simp add: load_env_file_def process_lines_entries)

section \<open>Loading, then rendering\<close>

text \<open>
  Claim C1, as amended. For every well-formed environment file, loading succeeds, and the
  payload rendered from the loaded mapping holds, for each of the four known keys that
  the file assigns, the key followed by the value of its last assignment in the file
  between single quotes. Keys other than the four are ignored by the renderer: the payload
  is the one rendered from the mapping restricted to the four known keys.
\<close>

theorem loaded_payload_known_keys:
  assumes "wf_file ls"
  shows "\<exists>env_vars. load_env_file env_file (Some (file_text nl ls)) = Inr (env_vars, []) \<and>
    (\<forall>K\<in>set known_keys. \<forall>v ls1 ls2.
       ls = ls1 @ Assign K v # ls2 \<and> (\<forall>v'. Assign K v' \<notin> set ls2) \<longrightarrow>
       sublist (K @ str '': '' @ [39] @ v @ [39]) (config_content env_vars)) \<and>
    config_content env_vars = config_content (env_vars |` set known_keys)"
proof -
  let ?env = "fold (\<lambda>(k, v) m. m(k \<mapsto> v)) (entries ls) (Map.empty :: env_vars)"
  have load: "load_env_file env_file (Some (file_text nl ls)) = Inr (?env, [])"
    by (simp add: load_env_file_entries entries_file_text [OF assms])
  have "sublist (K @ str '': '' @ [39] @ v @ [39]) (config_content ?env)"
    if K: "K \<in> set known_keys" and ls: "ls = ls1 @ Assign K v # ls2"
      and last: "\<forall>v'. Assign K v' \<notin> set ls2" for K v ls1 ls2
  proof -
    have "K \<notin> fst ` set (entries ls2)"
      using last entries_keys [of K ls2] by blast
    then have "?env K = Some v"
      unfolding ls entries_split by (rule fold_upd_last)
    with K show ?thesis by (rule config_content_holds)
  qed
  with load show ?thesis
    by (simp add: config_content_restrict) blast
qed

theorem loaded_payload_known_keys_witness:
  "wf_file [Comment (str '' settings''), Assign (str ''N8N_API_KEY'') (str ''abc=123''),
            Assign (str ''THEME'') (str ''dark'')] \<and>
   load_env_file (str ''webapp.env'')
     (Some (str ''# settings'' @ [10] @ str ''N8N_API_KEY=abc=123'' @ [10] @ str ''THEME=dark'')) =
     Inr ([str ''N8N_API_KEY'' \<mapsto> str ''abc=123'', str ''THEME'' \<mapsto> str ''dark''], []) \<and>
   sublist (str ''N8N_API_KEY: '' @ [39] @ str ''abc=123'' @ [39])
     (config_content [str ''N8N_API_KEY'' \<mapsto> str ''abc=123'', str ''THEME'' \<mapsto> str ''dark'']) \<and>
   config_content [str ''N8N_API_KEY'' \<mapsto> str ''abc=123'', str ''THEME'' \<mapsto> str ''dark''] =
   config_content ([str ''N8N_API_KEY'' \<mapsto> str ''abc=123'', str ''THEME'' \<mapsto> str ''dark'']
                    |` set known_keys)"
proof -
  let ?ls = "[Comment (str '' settings''), Assign (str ''N8N_API_KEY'') (str ''abc=123''),
            Assign (str ''THEME'') (str ''dark'')]"
  let ?m = "[str ''N8N_API_KEY'' \<mapsto> str ''abc=123'', str ''THEME'' \<mapsto> str ''dark'']"
  have wf: "wf_file ?ls"
    by (simp add: wf_file_def one_line_def py_defs)
  have ft: "file_text False ?ls =
      str ''# settings'' @ [10] @ str ''N8N_API_KEY=abc=123'' @ [10] @ str ''THEME=dark''"
    by (simp add: file_text_def str_def)
  have "load_env_file (str ''webapp.env'')
      (Some (str ''# settings'' @ [10] @ str ''N8N_API_KEY=abc=123'' @ [10] @ str ''THEME=dark'')) =
      Inr (?m, [])"
    by (simp add: load_env_file_def readlines_def process_line_def py_defs)
  then have load: "load_env_file (str ''webapp.env'') (Some (file_text False ?ls)) = Inr (?m, [])"
    by (simp only: ft)
  from loaded_payload_known_keys [OF wf, of "str ''webapp.env''" False]
  obtain env_vars where e: "load_env_file (str ''webapp.env'') (Some (file_text False ?ls)) = Inr (env_vars, [])"
    and k: "\<forall>K\<in>set known_keys. \<forall>v ls1 ls2.
       ?ls = ls1 @ Assign K v # ls2 \<and> (\<forall>v'. Assign K v' \<notin> set ls2) \<longrightarrow>
       sublist (K @ str '': '' @ [39] @ v @ [39]) (config_content env_vars)"
    and r: "config_content env_vars = config_content (env_vars |` set known_keys)"
    by blast
  from e load have m: "env_vars = ?m" by simp
  have "str ''N8N_API_KEY'' \<in> set known_keys"
    by (simp add: known_keys_def)
  moreover have "?ls = [Comment (str '' settings'')] @ Assign (str ''N8N_API_KEY'') (str ''abc=123'') #
      [Assign (str ''THEME'') (str ''dark'')] \<and>
      (\<forall>v'. Assign (str ''N8N_API_KEY'') v' \<notin> set [Assign (str ''THEME'') (str ''dark'')])"
    by (simp add: str_def)
  ultimately have "sublist (str ''N8N_API_KEY'' @ str '': '' @ [39] @ str ''abc=123'' @ [39])
      (config_content env_vars)"
    using k by blast
  then have "sublist (str ''N8N_API_KEY: '' @ [39] @ str ''abc=123'' @ [39]) (config_content ?m)"
    by (simp add: m str_def)
  with wf load r show ?thesis
    by (simp only: ft m)
qed

text \<open>
  Claim C1 as first stated also says that the value of a key other than the four never
  appears in the payload. The file with the single line \<open>OTHER=false\<close> is well-formed,
  \<open>OTHER\<close> is not a known key, and its value \<open>false\<close> stands in the payload between
  single quotes, as the default of \<open>DEBUG_MODE\<close>.
\<close>

theorem unrecognized_value_counterexample:
  "wf_file [Assign (str ''OTHER'') (str ''false'')] \<and>
   str ''OTHER'' \<notin> set known_keys \<and>
   load_env_file (str ''webapp.env'') (Some (file_text True [Assign (str ''OTHER'') (str ''false'')])) =
     Inr ([str ''OTHER'' \<mapsto> str ''false''], []) \<and>
   sublist ([39] @ str ''false'' @ [39]) (config_content [str ''OTHER'' \<mapsto> str ''false''])"
proof -
  have "config_content [str ''OTHER'' \<mapsto> str ''false''] =
      (str ''// Auto-generated configuration from webapp.env'' @ [10] @
       str ''// This file is generated at server startup'' @ [10] @ [10] @
       str ''window.ENV = {'' @ [10] @
       str ''    N8N_API_BASE_URL: '' @ [39] @ str ''http://localhost:5678/api/v1'' @
       [39] @ str '','' @ [10] @
       str ''    N8N_API_KEY: '' @ [39] @ str ''your-api-key-here'' @ [39] @ str '','' @ [10] @
       str ''    REFRESH_INTERVAL: '' @ [39] @ str ''30000'' @ [39] @ str '','' @ [10] @
       str ''    DEBUG_MODE: '') @ ([39] @ str ''false'' @ [39]) @ ([10] @ str ''};'' @ [10])"
    by (simp add: config_content_def get_def str_def)
  then have "sublist ([39] @ str ''false'' @ [39]) (config_content [str ''OTHER'' \<mapsto> str ''false''])"
    by (simp only: sublist_appendI)
  moreover have "wf_file [Assign (str ''OTHER'') (str ''false'')]"
    by (simp add: wf_file_def one_line_def py_defs)
  moreover have "str ''OTHER'' \<notin> set known_keys"
    by (simp add: known_keys_def str_def)
  moreover have "load_env_file (str ''webapp.env'')
      (Some (file_text True [Assign (str ''OTHER'') (str ''false'')])) =
     Inr ([str ''OTHER'' \<mapsto> str ''false''], [])"
    by (simp add: file_text_def load_env_file_def readlines_def process_line_def py_defs)
  ultimately show ?thesis by blast
qed

lemma map_filter_append:
  "List.map_filter f (xs @ ys) = List.map_filter f xs @ List.map_filter f ys"
  by (simp add: List.map_filter_def)

section \<open>Single lines\<close>

text \<open>
  Claim C2. A line that, once stripped, is not empty and does not start with \<open>#\<close>, and
  that holds an \<open>=\<close>, is split at its first \<open>=\<close> only: the stripped line is a key without
  \<open>=\<close>, the \<open>=\<close>, and a rest in which further \<open>=\<close> may occur; the loader maps the stripped
  key to the stripped rest.
\<close>

theorem process_line_assignment:
  assumes "strip raw \<noteq> []" and "\<not> startswith (strip raw) (str ''#'')" and "61 \<in> set raw"
  shows "\<exists>key val. strip raw = key @ 61 # val \<and> 61 \<notin> set key \<and>
    process_line env_vars raw = Inr (env_vars(strip key \<mapsto> strip val))"
proof -
  let ?key = "takeWhile (\<lambda>c. c \<noteq> 61) (strip raw)"
  let ?val = "tl (dropWhile (\<lambda>c. c \<noteq> 61) (strip raw))"
  have eq: "61 \<in> set (strip raw)"
    using assms(3) by (simp add: mem_strip_iff not_isspace_61)
  then have "strip raw = ?key @ 61 # ?val"
    by (rule first_split)
  moreover have "61 \<notin> set ?key"
    using set_takeWhileD [of 61 "\<lambda>c. c \<noteq> 61" "strip raw"] by blast
  moreover have "process_line env_vars raw = Inr (env_vars(strip ?key \<mapsto> strip ?val))"
    using assms(1,2) eq by (simp add: process_line_def split1_def Let_def)
  ultimately show ?thesis by blast
qed

theorem process_line_assignment_witness:
  "strip (str ''  N8N_API_KEY = a=b=c  '' @ [10]) \<noteq> [] \<and>
   \<not> startswith (strip (str ''  N8N_API_KEY = a=b=c  '' @ [10])) (str ''#'') \<and>
   61 \<in> set (str ''  N8N_API_KEY = a=b=c  '' @ [10]) \<and>
   strip (str ''  N8N_API_KEY = a=b=c  '' @ [10]) = str ''N8N_API_KEY '' @ 61 # str '' a=b=c'' \<and>
   process_line Map.empty (str ''  N8N_API_KEY = a=b=c  '' @ [10]) =
     Inr [str ''N8N_API_KEY'' \<mapsto> str ''a=b=c'']"
proof -
  let ?raw = "str ''  N8N_API_KEY = a=b=c  '' @ [10]"
  have h: "strip ?raw \<noteq> []" "\<not> startswith (strip ?raw) (str ''#'')" "61 \<in> set ?raw"
    by (simp_all add: py_defs)
  have s: "strip ?raw = str ''N8N_API_KEY '' @ 61 # str '' a=b=c''"
    by (simp add: py_defs)
  from process_line_assignment [OF h, of Map.empty]
  obtain key val where kv: "strip ?raw = key @ 61 # val" "61 \<notin> set key"
    and p: "process_line Map.empty ?raw = Inr [strip key \<mapsto> strip val]"
    by blast
  have k: "61 \<notin> set (str ''N8N_API_KEY '')"
    by (simp add: str_def)
  from kv(1) s have "key @ 61 # val = str ''N8N_API_KEY '' @ 61 # str '' a=b=c''"
    by simp
  then have "key = str ''N8N_API_KEY '' \<and> val = str '' a=b=c''"
    using kv(2) k
    by (metis takeWhile_first dropWhile_first list.sel(3))
  then have "process_line Map.empty ?raw = Inr [strip (str ''N8N_API_KEY '') \<mapsto> strip (str '' a=b=c'')]"
    using p by simp
  moreover have "strip (str ''N8N_API_KEY '') = str ''N8N_API_KEY''"
    and "strip (str '' a=b=c'') = str ''a=b=c''"
    by (simp_all add: py_defs)
  ultimately have "process_line Map.empty ?raw = Inr [str ''N8N_API_KEY'' \<mapsto> str ''a=b=c'']"
    by simp
  with h s show ?thesis by blast
qed

text \<open>
  Claim C3. A line that is empty once stripped, or whose stripped form starts with \<open>#\<close>,
  or that holds no \<open>=\<close>, leaves the mapping as it is, whatever else the line holds; loading
  a file that has such a line succeeds and gives the mapping that the other lines of the
  file give.
\<close>

theorem skipped_line:
  assumes "strip raw = [] \<or> startswith (strip raw) (str ''#'') \<or> 61 \<notin> set raw"
    and "readlines text = before @ raw # after"
  shows "process_line env_vars raw = Inr env_vars \<and>
    (\<exists>loaded. load_env_file env_file (Some text) = Inr (loaded, []) \<and>
       process_lines Map.empty (before @ after) = Inr loaded)"
proof -
  have "line_entry raw = None"
    using assms(1) by (auto simp: line_entry_def mem_strip_iff not_isspace_61)
  then show ?thesis
    by (simp add: load_env_file_def process_lines_entries process_line_entry assms(2)
        map_filter_append)
qed

theorem skipped_line_witness:
  "startswith (strip (str ''  # N8N_API_KEY=secret'' @ [10])) (str ''#'') \<and>
   readlines (str ''DEBUG_MODE=true'' @ [10] @ str ''  # N8N_API_KEY=secret'' @ [10] @ str ''x'') =
     [str ''DEBUG_MODE=true'' @ [10]] @ (str ''  # N8N_API_KEY=secret'' @ [10]) # [str ''x''] \<and>
   process_line Map.empty (str ''  # N8N_API_KEY=secret'' @ [10]) = Inr Map.empty \<and>
   load_env_file (str ''webapp.env'')
     (Some (str ''DEBUG_MODE=true'' @ [10] @ str ''  # N8N_API_KEY=secret'' @ [10] @ str ''x'')) =
     Inr ([str ''DEBUG_MODE'' \<mapsto> str ''true''], [])"
proof -
  let ?raw = "str ''  # N8N_API_KEY=secret'' @ [10]"
  let ?text = "str ''DEBUG_MODE=true'' @ [10] @ str ''  # N8N_API_KEY=secret'' @ [10] @ str ''x''"
  have c: "startswith (strip ?raw) (str ''#'')"
    by (simp add: py_defs)
  then have h: "strip ?raw = [] \<or> startswith (strip ?raw) (str ''#'') \<or> 61 \<notin> set ?raw"
    by blast
  have r: "readlines ?text = [str ''DEBUG_MODE=true'' @ [10]] @ ?raw # [str ''x'']"
    by (simp add: readlines_def str_def)
  have l: "load_env_file (str ''webapp.env'') (Some ?text) =
      Inr ([str ''DEBUG_MODE'' \<mapsto> str ''true''], [])"
    by (simp add: load_env_file_def readlines_def process_line_def py_defs)
  from skipped_line [OF h r, of Map.empty "str ''webapp.env''"]
  have "process_line Map.empty ?raw = Inr Map.empty" by blast
  with c r l show ?thesis by blast
qed

section \<open>The missing file\<close>

text \<open>
  Claim C4. When the environment file does not exist, the loader does not fail: it
  returns the default mapping, which has exactly the four known keys with their default
  values, and prints one warning line that names the file.
\<close>

theorem missing_file_defaults:
  "load_env_file env_file None =
     Inr (default_env_vars,
          [str ''Warning: '' @ env_file @ str '' not found. Using default values.'']) \<and>
   dom default_env_vars =
     {str ''N8N_API_BASE_URL'', str ''N8N_API_KEY'', str ''REFRESH_INTERVAL'', str ''DEBUG_MODE''} \<and>
   default_env_vars (str ''N8N_API_BASE_URL'') = Some (str ''http://localhost:5678/api/v1'') \<and>
   default_env_vars (str ''N8N_API_KEY'') = Some (str ''your-api-key-here'') \<and>
   default_env_vars (str ''REFRESH_INTERVAL'') = Some (str ''30000'') \<and>
   default_env_vars (str ''DEBUG_MODE'') = Some (str ''false'')"
proof -
  have "dom default_env_vars =
     {str ''N8N_API_BASE_URL'', str ''N8N_API_KEY'', str ''REFRESH_INTERVAL'', str ''DEBUG_MODE''}"
    unfolding default_env_vars_def by (simp only: dom_fun_upd dom_empty option.simps if_False) blast
  moreover have "default_env_vars (str ''N8N_API_BASE_URL'') = Some (str ''http://localhost:5678/api/v1'')"
    and "default_env_vars (str ''N8N_API_KEY'') = Some (str ''your-api-key-here'')"
    and "default_env_vars (str ''REFRESH_INTERVAL'') = Some (str ''30000'')"
    and "default_env_vars (str ''DEBUG_MODE'') = Some (str ''false'')"
    by (simp_all add: default_env_vars_def str_def)
  ultimately show ?thesis
    by (simp add: load_env_file_def)
qed

text \<open>
  Claim C5. The payload rendered from what the loader returns for an absent file is the
  payload rendered from the default mapping, and it is also the payload rendered from
  the empty mapping, in which every key takes the fallback written in the renderer: the
  fallbacks of the renderer are the values of the default mapping.
\<close>

theorem absent_file_payload:
  "(case load_env_file env_file None of
      Inl e \<Rightarrow> False
    | Inr (env_vars, printed) \<Rightarrow> config_content env_vars = config_content default_env_vars) \<and>
   config_content default_env_vars = config_content Map.empty \<and>
   get default_env_vars (str ''N8N_API_BASE_URL'') d1 =
     get Map.empty (str ''N8N_API_BASE_URL'') (str ''http://localhost:5678/api/v1'') \<and>
   get default_env_vars (str ''N8N_API_KEY'') d2 =
     get Map.empty (str ''N8N_API_KEY'') (str ''your-api-key-here'') \<and>
   get default_env_vars (str ''REFRESH_INTERVAL'') d3 =
     get Map.empty (str ''REFRESH_INTERVAL'') (str ''30000'') \<and>
   get default_env_vars (str ''DEBUG_MODE'') d4 =
     get Map.empty (str ''DEBUG_MODE'') (str ''false'')"
proof -
  have g: "get default_env_vars (str ''N8N_API_BASE_URL'') d1 =
       get Map.empty (str ''N8N_API_BASE_URL'') (str ''http://localhost:5678/api/v1'')"
    "get default_env_vars (str ''N8N_API_KEY'') d2 =
       get Map.empty (str ''N8N_API_KEY'') (str ''your-api-key-here'')"
    "get default_env_vars (str ''REFRESH_INTERVAL'') d3 =
       get Map.empty (str ''REFRESH_INTERVAL'') (str ''30000'')"
    "get default_env_vars (str ''DEBUG_MODE'') d4 =
       get Map.empty (str ''DEBUG_MODE'') (str ''false'')"
    for d1 d2 d3 d4
    by (simp_all add: get_def default_env_vars_def str_def)
  have "config_content default_env_vars = config_content Map.empty"
    unfolding config_content_def by (simp only: g)
  with g show ?thesis
    by (simp add: load_env_file_def)
qed

text \<open>
  Claim C6. The file with the three lines \<open>N8N_API_KEY=abc123\<close>, \<open># comment\<close> and
  \<open>REFRESH_INTERVAL=5000\<close> loads to the mapping of these two keys, and the payload
  rendered from it gives \<open>abc123\<close> and \<open>5000\<close> for them and the defaults
  \<open>http://localhost:5678/api/v1\<close> and \<open>false\<close> for the two other keys.
\<close>

theorem concrete_scenario:
  "load_env_file env_file
     (Some (str ''N8N_API_KEY=abc123'' @ [10] @ str ''# comment'' @ [10] @
            str ''REFRESH_INTERVAL=5000'')) =
     Inr ([str ''N8N_API_KEY'' \<mapsto> str ''abc123'', str ''REFRESH_INTERVAL'' \<mapsto> str ''5000''], []) \<and>
   config_content [str ''N8N_API_KEY'' \<mapsto> str ''abc123'', str ''REFRESH_INTERVAL'' \<mapsto> str ''5000''] =
     str ''// Auto-generated configuration from webapp.env'' @ [10] @
     str ''// This file is generated at server startup'' @ [10] @
     [10] @
     str ''window.ENV = {'' @ [10] @
     str ''    N8N_API_BASE_URL: '' @ [39] @ str ''http://localhost:5678/api/v1'' @ [39] @ str '','' @ [10] @
     str ''    N8N_API_KEY: '' @ [39] @ str ''abc123'' @ [39] @ str '','' @ [10] @
     str ''    REFRESH_INTERVAL: '' @ [39] @ str ''5000'' @ [39] @ str '','' @ [10] @
     str ''    DEBUG_MODE: '' @ [39] @ str ''false'' @ [39] @ [10] @
     str ''};'' @ [10]"
proof -
  have "load_env_file env_file
     (Some (str ''N8N_API_KEY=abc123'' @ [10] @ str ''# comment'' @ [10] @
            str ''REFRESH_INTERVAL=5000'')) =
     Inr ([str ''N8N_API_KEY'' \<mapsto> str ''abc123'', str ''REFRESH_INTERVAL'' \<mapsto> str ''5000''], [])"
    by (simp add: load_env_file_def readlines_def process_line_def py_defs)
  moreover have
    "config_content [str ''N8N_API_KEY'' \<mapsto> str ''abc123'', str ''REFRESH_INTERVAL'' \<mapsto> str ''5000''] =
     str ''// Auto-generated configuration from webapp.env'' @ [10] @
     str ''// This file is generated at server startup'' @ [10] @
     [10] @
     str ''window.ENV = {'' @ [10] @
     str ''    N8N_API_BASE_URL: '' @ [39] @ str ''http://localhost:5678/api/v1'' @ [39] @ str '','' @ [10] @
     str ''    N8N_API_KEY: '' @ [39] @ str ''abc123'' @ [39] @ str '','' @ [10] @
     str ''    REFRESH_INTERVAL: '' @ [39] @ str ''5000'' @ [39] @ str '','' @ [10] @
     str ''    DEBUG_MODE: '' @ [39] @ str ''false'' @ [39] @ [10] @
     str ''};'' @ [10]"
    by (simp add: config_content_def get_def str_def)
  ultimately show ?thesis by (rule conjI)
qed

section \<open>Repeated keys\<close>

text \<open>
  Claim C10. When a line of an existing file contributes a pair for a key and no later
  line contributes a pair for that key, the loaded mapping gives the key the value of
  that line: of several lines for one key, the last one decides. When the stripped line
  is a key followed by \<open>=\<close> and nothing else, the value is the empty string.
\<close>

theorem last_assignment_wins:
  assumes "readlines text = before @ raw # after"
    and "line_entry raw = Some (key, val)"
    and "\<forall>l\<in>set after. \<forall>val'. line_entry l \<noteq> Some (key, val')"
  shows "(\<exists>loaded. load_env_file env_file (Some text) = Inr (loaded, []) \<and>
            loaded key = Some val) \<and>
         (\<forall>k. strip raw = k @ [61] \<and> 61 \<notin> set k \<longrightarrow> key = strip k \<and> val = [])"
proof -
  have "key \<notin> fst ` set (List.map_filter line_entry after)"
    using assms(3) by (auto simp: List.map_filter_def)
  then have "fold (\<lambda>(k, v) m. m(k \<mapsto> v))
      (List.map_filter line_entry before @ (key, val) # List.map_filter line_entry after)
      (Map.empty :: env_vars) key = Some val"
    by (rule fold_upd_last)
  then have load: "\<exists>loaded. load_env_file env_file (Some text) = Inr (loaded, []) \<and>
      loaded key = Some val"
    by (simp add: load_env_file_entries assms(1,2) map_filter_append)
  have "key = strip k \<and> val = []" if "strip raw = k @ [61]" and "61 \<notin> set k" for k
    using assms(2) that
    by (simp add: line_entry_def Let_def takeWhile_first dropWhile_first strip_Nil split: if_splits)
  with load show ?thesis by blast
qed

theorem last_assignment_wins_witness:
  "readlines (str ''DEBUG_MODE=true'' @ [10] @ str ''N8N_API_KEY=one'' @ [10] @
              str ''N8N_API_KEY ='' @ [10] @ str ''REFRESH_INTERVAL=1'' @ [10]) =
     [str ''DEBUG_MODE=true'' @ [10], str ''N8N_API_KEY=one'' @ [10]] @
     (str ''N8N_API_KEY ='' @ [10]) # [str ''REFRESH_INTERVAL=1'' @ [10]] \<and>
   line_entry (str ''N8N_API_KEY ='' @ [10]) = Some (str ''N8N_API_KEY'', []) \<and>
   line_entry (str ''REFRESH_INTERVAL=1'' @ [10]) = Some (str ''REFRESH_INTERVAL'', str ''1'') \<and>
   load_env_file (str ''webapp.env'')
     (Some (str ''DEBUG_MODE=true'' @ [10] @ str ''N8N_API_KEY=one'' @ [10] @
            str ''N8N_API_KEY ='' @ [10] @ str ''REFRESH_INTERVAL=1'' @ [10])) =
     Inr ([str ''DEBUG_MODE'' \<mapsto> str ''true'', str ''N8N_API_KEY'' \<mapsto> [],
           str ''REFRESH_INTERVAL'' \<mapsto> str ''1''], []) \<and>
   [str ''DEBUG_MODE'' \<mapsto> str ''true'', str ''N8N_API_KEY'' \<mapsto> [],
    str ''REFRESH_INTERVAL'' \<mapsto> str ''1''] (str ''N8N_API_KEY'') = Some []"
proof -
  let ?text = "str ''DEBUG_MODE=true'' @ [10] @ str ''N8N_API_KEY=one'' @ [10] @
              str ''N8N_API_KEY ='' @ [10] @ str ''REFRESH_INTERVAL=1'' @ [10]"
  let ?raw = "str ''N8N_API_KEY ='' @ [10]"
  let ?m = "[str ''DEBUG_MODE'' \<mapsto> str ''true'', str ''N8N_API_KEY'' \<mapsto> [],
    str ''REFRESH_INTERVAL'' \<mapsto> str ''1'']"
  have r: "readlines ?text =
     [str ''DEBUG_MODE=true'' @ [10], str ''N8N_API_KEY=one'' @ [10]] @
     ?raw # [str ''REFRESH_INTERVAL=1'' @ [10]]"
    by (simp add: readlines_def str_def)
  have e: "line_entry ?raw = Some (str ''N8N_API_KEY'', [])"
    by (simp add: line_entry_def py_defs)
  have o: "line_entry (str ''REFRESH_INTERVAL=1'' @ [10]) = Some (str ''REFRESH_INTERVAL'', str ''1'')"
    by (simp add: line_entry_def py_defs)
  have "str ''REFRESH_INTERVAL'' \<noteq> str ''N8N_API_KEY''"
    by (simp add: str_def)
  with o have a: "\<forall>l\<in>set [str ''REFRESH_INTERVAL=1'' @ [10]]. \<forall>val'.
      line_entry l \<noteq> Some (str ''N8N_API_KEY'', val')"
    by simp
  have l: "load_env_file (str ''webapp.env'') (Some ?text) = Inr (?m, [])"
    by (simp add: load_env_file_def readlines_def process_line_def py_defs)
  from last_assignment_wins [OF r e a, of "str ''webapp.env''"]
  obtain loaded where "load_env_file (str ''webapp.env'') (Some ?text) = Inr (loaded, [])"
    and "loaded (str ''N8N_API_KEY'') = Some []"
    by blast
  with l have "?m (str ''N8N_API_KEY'') = Some []" by simp
  with r e o l show ?thesis by blast
qed

section \<open>Encoding the payload\<close>

lemma decoded_append: "decoded (xs @ ys) \<longleftrightarrow> decoded xs \<and> decoded ys"
  by (simp add: decoded_def)

lemma decoded_Cons: "decoded (c # cs) \<longleftrightarrow> \<not> surrogate c \<and> decoded cs"
  by (simp add: decoded_def)

lemma decoded_subset: "decoded xs \<Longrightarrow> set ys \<subseteq> set xs \<Longrightarrow> decoded ys"
  by (auto simp: decoded_def list_all_iff)

lemma decoded_str: "decoded (str s)"
proof -
  have b: "of_char c < (256 :: nat)" for c
    by (cases c) simp
  have "\<not> surrogate (of_char c)" for c
    using b [of c] unfolding surrogate_def by linarith
  then show ?thesis
    by (simp add: decoded_def str_def list_all_iff)
qed

lemma encode_decoded: "decoded s \<Longrightarrow> encode s = Inr (concat (map utf8 s))"
  by (induction s) (simp_all add: decoded_Cons)

lemma set_universal_newlines: "set (universal_newlines t) \<subseteq> insert 10 (set t)"
  by (induction t rule: universal_newlines.induct) auto

lemma set_lines_from: "l \<in> set (lines_from cur t) \<Longrightarrow> set l \<subseteq> set cur \<union> set t"
  by (induction t arbitrary: cur) (fastforce split: if_splits)+

lemma line_entry_value: "line_entry raw = Some (k, v) \<Longrightarrow> set v \<subseteq> set raw"
proof -
  assume "line_entry raw = Some (k, v)"
  then have v: "v = strip (tl (dropWhile (\<lambda>c. c \<noteq> 61) (strip raw)))"
    by (simp add: line_entry_def Let_def split: if_splits)
  have "set (tl (dropWhile (\<lambda>c. c \<noteq> 61) (strip raw))) \<subseteq> set (strip raw)"
  proof -
    have "set (tl xs) \<subseteq> set xs" for xs :: pystr
      by (cases xs) auto
    moreover have "set (dropWhile P xs) \<subseteq> set xs" for P and xs :: pystr
      using set_dropWhileD [of _ P xs] by blast
    ultimately show ?thesis by blast
  qed
  then show ?thesis
    unfolding v using set_strip [of raw] set_strip [of "tl (dropWhile (\<lambda>c. c \<noteq> 61) (strip raw))"]
    by blast
qed

lemma fold_upd_lookup:
  "fold (\<lambda>(k, v) m. m(k \<mapsto> v)) es (m :: env_vars) K = Some v \<Longrightarrow> m K = Some v \<or> (K, v) \<in> set es"
  by (induction es arbitrary: m) (fastforce split: if_splits)+

lemma loaded_values_decoded:
  assumes "decoded text" and "load_env_file env_file (Some text) = Inr (env_vars, printed)"
    and "env_vars K = Some v"
  shows "decoded v"
proof -
  from assms(2) have "env_vars =
      fold (\<lambda>(k, v) m. m(k \<mapsto> v)) (List.map_filter line_entry (readlines text)) Map.empty"
    by (simp add: load_env_file_entries)
  with assms(3) have "(K, v) \<in> set (List.map_filter line_entry (readlines text))"
    using fold_upd_lookup [of "List.map_filter line_entry (readlines text)" Map.empty K v] by simp
  then obtain raw where raw: "raw \<in> set (readlines text)" and "line_entry raw = Some (K, v)"
    by (auto simp: List.map_filter_def)
  then have "set v \<subseteq> set raw" by (simp add: line_entry_value)
  also have "\<dots> \<subseteq> set (universal_newlines text)"
    using set_lines_from [of raw "[]" "universal_newlines text"] raw by (simp add: readlines_def)
  also have "\<dots> \<subseteq> set (10 # text)"
    using set_universal_newlines [of "text"] by simp
  finally have "set v \<subseteq> set (10 # text)" .
  moreover have "decoded (10 # text)"
    using assms(1) by (simp add: decoded_Cons surrogate_def)
  ultimately show ?thesis by (rule decoded_subset [rotated])
qed

lemma decoded_get:
  "(\<And>v. env_vars K = Some v \<Longrightarrow> decoded v) \<Longrightarrow> decoded (get env_vars K (str d))"
  by (cases "env_vars K") (simp_all add: get_def decoded_str)

lemma decoded_config_content:
  assumes "\<And>K v. env_vars K = Some v \<Longrightarrow> decoded v"
  shows "decoded (config_content env_vars)"
proof -
  have n: "decoded [10]" and q: "decoded [39]"
    by (simp_all add: decoded_def surrogate_def)
  show ?thesis
    unfolding config_content_def
    by (simp only: decoded_append decoded_str n q decoded_get [of env_vars, OF assms] simp_thms)
qed

lemma default_values_decoded: "default_env_vars K = Some v \<Longrightarrow> decoded v"
  by (auto simp: default_env_vars_def decoded_str split: if_splits)

lemma load_env_file_total:
  "\<exists>env_vars printed. load_env_file env_file contents = Inr (env_vars, printed)"
  by (cases contents) (simp_all add: load_env_file_def process_lines_entries)

lemma encode_loaded:
  assumes "\<And>text. contents = Some text \<Longrightarrow> decoded text"
    and "load_env_file env_file contents = Inr (env_vars, printed)"
  shows "encode (config_content env_vars) = Inr (concat (map utf8 (config_content env_vars)))"
proof -
  have "decoded v" if "env_vars K = Some v" for K v
  proof (cases contents)
    case None
    with assms(2) have "env_vars = default_env_vars"
      by (simp add: load_env_file_def)
    with that show ?thesis by (simp add: default_values_decoded)
  next
    case (Some t)
    with assms that show ?thesis
      using loaded_values_decoded [of t env_file env_vars printed K v] by simp
  qed
  then show ?thesis
    by (intro encode_decoded decoded_config_content)
qed

section \<open>Responses\<close>

lemmas handler_defs = send_response_def send_response_only_def send_header_def
  base_end_headers_def flush_headers_def wfile_write_def end_headers_def

lemma request_version_send_header: "request_version (send_header keyword v h) = request_version h"
  by (simp add: send_header_def)

lemma request_version_send_response: "request_version (send_response w code h) = request_version h"
  by (simp add: send_response_def send_response_only_def request_version_send_header)

lemma request_version_send_headers:
  "request_version (fold (\<lambda>(keyword, v). send_header keyword v) hs h) = request_version h"
  by (induction hs arbitrary: h) (auto simp: request_version_send_header)

lemma wfile_ended:
  "request_version h \<noteq> str ''HTTP/0.9'' \<Longrightarrow>
   wfile (wfile_write body (end_headers h)) =
     wfile h @ headers_buffer h @
     [HeaderLine (str ''Access-Control-Allow-Origin'') (StrVal (str ''*'')),
      HeaderLine (str ''Access-Control-Allow-Methods'') (StrVal (str ''GET, POST, OPTIONS'')),
      HeaderLine (str ''Access-Control-Allow-Headers'') (StrVal (str ''Content-Type'')),
      EndHeaders, Body body]"
  by (simp add: handler_defs)

lemma last_wfile_write: "last (wfile (wfile_write body h)) = Body body"
  by (simp add: wfile_write_def)

lemma do_GET_config:
  assumes "path h = str ''/config.js''"
    and "\<And>t. env_file_contents w = Some t \<Longrightarrow> decoded t"
  shows "\<exists>env_vars printed.
    load_env_file (env_file_path w) (env_file_contents w) = Inr (env_vars, printed) \<and>
    encode (config_content env_vars) = Inr (concat (map utf8 (config_content env_vars))) \<and>
    do_GET w h =
      Inr (wfile_write (concat (map utf8 (config_content env_vars)))
             (end_headers
                (send_header (str ''Content-Length'')
                   (IntVal (int (length (concat (map utf8 (config_content env_vars))))))
                   (send_header (str ''Content-type'') (StrVal (str ''application/javascript''))
                      (send_response w 200 h)))),
           printed)"
proof -
  obtain env_vars printed
    where l: "load_env_file (env_file_path w) (env_file_contents w) = Inr (env_vars, printed)"
    using load_env_file_total by blast
  have e: "encode (config_content env_vars) = Inr (concat (map utf8 (config_content env_vars)))"
    using assms(2) l by (rule encode_loaded)
  show ?thesis
    using assms(1) l e by (simp add: do_GET_def)
qed

lemma serve_forever_nth:
  "i < length requests \<Longrightarrow> requests ! i = (w, v, p) \<Longrightarrow>
   serve_forever requests ! i = do_GET w (new_handler v p)"
proof (induction requests arbitrary: i rule: serve_forever.induct)
  case 1
  then show ?case by simp
next
  case (2 w' v' p' requests)
  then show ?case by (cases i) simp_all
qed

lemma encode_default_payload:
  "encode (config_content default_env_vars) =
     Inr (concat (map utf8 (config_content default_env_vars)))"
  by (intro encode_decoded decoded_config_content) (rule default_values_decoded)

text \<open>
  Claim C8, as amended. A GET request for \<open>/config.js\<close> is answered from the loader and
  the renderer, and the body is the UTF-8 encoding of the payload. When the request
  carries an HTTP version other than \<open>HTTP/0.9\<close>, the response has status 200, after the
  two headers of the library the header \<open>Content-type\<close> with \<open>application/javascript\<close> and
  the header \<open>Content-Length\<close> with the number of bytes of that encoding, then the headers
  that \<open>end_headers\<close> adds. When the request is an \<open>HTTP/0.9\<close> request, the library writes
  neither status line nor headers, and the response is the body alone. The contents of
  the file, when it exists, are text as decoding gives it.
\<close>

theorem config_js_response:
  assumes "\<And>t. env_file_contents w = Some t \<Longrightarrow> decoded t"
  shows "\<exists>env_vars printed body.
    load_env_file (env_file_path w) (env_file_contents w) = Inr (env_vars, printed) \<and>
    encode (config_content env_vars) = Inr body \<and>
    do_GET w (new_handler v (str ''/config.js'')) =
      Inr (\<lparr>request_version = v, path = str ''/config.js'', headers_buffer = [],
            wfile =
              (if v = str ''HTTP/0.9'' then [Body body]
               else
                 [StatusLine 200,
                  HeaderLine (str ''Server'') (StrVal (version_string w)),
                  HeaderLine (str ''Date'') (StrVal (date_time_string w)),
                  HeaderLine (str ''Content-type'') (StrVal (str ''application/javascript'')),
                  HeaderLine (str ''Content-Length'') (IntVal (int (length body))),
                  HeaderLine (str ''Access-Control-Allow-Origin'') (StrVal (str ''*'')),
                  HeaderLine (str ''Access-Control-Allow-Methods'')
                    (StrVal (str ''GET, POST, OPTIONS'')),
                  HeaderLine (str ''Access-Control-Allow-Headers'') (StrVal (str ''Content-Type'')),
                  EndHeaders, Body body])\<rparr>,
           printed)"
proof -
  let ?h = "new_handler v (str ''/config.js'')"
  have "path ?h = str ''/config.js''"
    by (simp add: new_handler_def)
  from do_GET_config [OF this assms]
  obtain env_vars printed
    where l: "load_env_file (env_file_path w) (env_file_contents w) = Inr (env_vars, printed)"
      and e: "encode (config_content env_vars) = Inr (concat (map utf8 (config_content env_vars)))"
      and d: "do_GET w ?h =
        Inr (wfile_write (concat (map utf8 (config_content env_vars)))
             (end_headers
                (send_header (str ''Content-Length'')
                   (IntVal (int (length (concat (map utf8 (config_content env_vars))))))
                   (send_header (str ''Content-type'') (StrVal (str ''application/javascript''))
                      (send_response w 200 ?h)))),
           printed)"
    by blast
  let ?body = "concat (map utf8 (config_content env_vars))"
  note d
  also have "wfile_write ?body
             (end_headers
                (send_header (str ''Content-Length'') (IntVal (int (length ?body)))
                   (send_header (str ''Content-type'') (StrVal (str ''application/javascript''))
                      (send_response w 200 ?h)))) =
      \<lparr>request_version = v, path = str ''/config.js'', headers_buffer = [],
            wfile =
              (if v = str ''HTTP/0.9'' then [Body ?body]
               else
                 [StatusLine 200,
                  HeaderLine (str ''Server'') (StrVal (version_string w)),
                  HeaderLine (str ''Date'') (StrVal (date_time_string w)),
                  HeaderLine (str ''Content-type'') (StrVal (str ''application/javascript'')),
                  HeaderLine (str ''Content-Length'') (IntVal (int (length ?body))),
                  HeaderLine (str ''Access-Control-Allow-Origin'') (StrVal (str ''*'')),
                  HeaderLine (str ''Access-Control-Allow-Methods'')
                    (StrVal (str ''GET, POST, OPTIONS'')),
                  HeaderLine (str ''Access-Control-Allow-Headers'') (StrVal (str ''Content-Type'')),
                  EndHeaders, Body ?body])\<rparr>"
    by (cases "v = str ''HTTP/0.9''") (simp_all add: handler_defs new_handler_def)
  finally show ?thesis
    using l e by blast
qed

theorem config_js_response_witness:
  "decoded (str ''N8N_API_KEY=caf'' @ [233]) \<and>
   length (config_content [str ''N8N_API_KEY'' \<mapsto> str ''caf'' @ [233]]) = 245 \<and>
   do_GET
     \<lparr>env_file_path = str ''webapp.env'',
      env_file_contents = Some (str ''N8N_API_KEY=caf'' @ [233]),
      version_string = str ''SimpleHTTP/0.6 Python/3.12.3'',
      date_time_string = str ''Tue, 03 Nov 2026 10:00:00 GMT'',
      static_file = (\<lambda>p. (404, [], []))\<rparr>
     (new_handler (str ''HTTP/1.1'') (str ''/config.js'')) =
     Inr (\<lparr>request_version = str ''HTTP/1.1'', path = str ''/config.js'', headers_buffer = [],
           wfile =
             [StatusLine 200,
              HeaderLine (str ''Server'') (StrVal (str ''SimpleHTTP/0.6 Python/3.12.3'')),
              HeaderLine (str ''Date'') (StrVal (str ''Tue, 03 Nov 2026 10:00:00 GMT'')),
              HeaderLine (str ''Content-type'') (StrVal (str ''application/javascript'')),
              HeaderLine (str ''Content-Length'') (IntVal 246),
              HeaderLine (str ''Access-Control-Allow-Origin'') (StrVal (str ''*'')),
              HeaderLine (str ''Access-Control-Allow-Methods'') (StrVal (str ''GET, POST, OPTIONS'')),
              HeaderLine (str ''Access-Control-Allow-Headers'') (StrVal (str ''Content-Type'')),
              EndHeaders,
              Body (concat (map utf8
                (config_content [str ''N8N_API_KEY'' \<mapsto> str ''caf'' @ [233]])))]\<rparr>,
          [])"
proof -
  let ?w = "\<lparr>env_file_path = str ''webapp.env'',
      env_file_contents = Some (str ''N8N_API_KEY=caf'' @ [233]),
      version_string = str ''SimpleHTTP/0.6 Python/3.12.3'',
      date_time_string = str ''Tue, 03 Nov 2026 10:00:00 GMT'',
      static_file = (\<lambda>p. (404, [], []))\<rparr>"
  let ?m = "[str ''N8N_API_KEY'' \<mapsto> str ''caf'' @ [233]]"
  have "decoded [233]"
    by (simp add: decoded_def surrogate_def)
  then have dec: "decoded (str ''N8N_API_KEY=caf'' @ [233])"
    by (simp add: decoded_append decoded_str)
  then have pre: "\<And>t. env_file_contents ?w = Some t \<Longrightarrow> decoded t"
    by simp
  have load: "load_env_file (env_file_path ?w) (env_file_contents ?w) = Inr (?m, [])"
    by (simp add: load_env_file_def readlines_def process_line_def py_defs)
  have len: "length (config_content ?m) = 245"
    by (simp add: config_content_def get_def str_def)
  have "decoded (str ''caf'' @ [233])"
    using \<open>decoded [233]\<close> by (simp add: decoded_append decoded_str)
  then have "decoded (config_content ?m)"
    by (intro decoded_config_content) (simp split: if_splits)
  then have enc: "encode (config_content ?m) = Inr (concat (map utf8 (config_content ?m)))"
    by (rule encode_decoded)
  have blen: "length (concat (map utf8 (config_content ?m))) = 246"
    by (simp add: config_content_def get_def str_def utf8_def)
  have v: "str ''HTTP/1.1'' \<noteq> str ''HTTP/0.9''"
    by (simp add: str_def)
  from config_js_response [of ?w "str ''HTTP/1.1''", OF pre]
  obtain env_vars printed body
    where "load_env_file (env_file_path ?w) (env_file_contents ?w) = Inr (env_vars, printed)"
      and "encode (config_content env_vars) = Inr body"
      and d: "do_GET ?w (new_handler (str ''HTTP/1.1'') (str ''/config.js'')) =
        Inr (\<lparr>request_version = str ''HTTP/1.1'', path = str ''/config.js'', headers_buffer = [],
            wfile =
              (if str ''HTTP/1.1'' = str ''HTTP/0.9'' then [Body body]
               else
                 [StatusLine 200,
                  HeaderLine (str ''Server'') (StrVal (version_string ?w)),
                  HeaderLine (str ''Date'') (StrVal (date_time_string ?w)),
                  HeaderLine (str ''Content-type'') (StrVal (str ''application/javascript'')),
                  HeaderLine (str ''Content-Length'') (IntVal (int (length body))),
                  HeaderLine (str ''Access-Control-Allow-Origin'') (StrVal (str ''*'')),
                  HeaderLine (str ''Access-Control-Allow-Methods'')
                    (StrVal (str ''GET, POST, OPTIONS'')),
                  HeaderLine (str ''Access-Control-Allow-Headers'') (StrVal (str ''Content-Type'')),
                  EndHeaders, Body body])\<rparr>,
           printed)"
    by blast
  with load enc have "env_vars = ?m" and "printed = []"
    and "body = concat (map utf8 (config_content ?m))"
    by simp_all
  with d blen v have "do_GET ?w (new_handler (str ''HTTP/1.1'') (str ''/config.js'')) =
     Inr (\<lparr>request_version = str ''HTTP/1.1'', path = str ''/config.js'', headers_buffer = [],
           wfile =
             [StatusLine 200,
              HeaderLine (str ''Server'') (StrVal (str ''SimpleHTTP/0.6 Python/3.12.3'')),
              HeaderLine (str ''Date'') (StrVal (str ''Tue, 03 Nov 2026 10:00:00 GMT'')),
              HeaderLine (str ''Content-type'') (StrVal (str ''application/javascript'')),
              HeaderLine (str ''Content-Length'') (IntVal 246),
              HeaderLine (str ''Access-Control-Allow-Origin'') (StrVal (str ''*'')),
              HeaderLine (str ''Access-Control-Allow-Methods'') (StrVal (str ''GET, POST, OPTIONS'')),
              HeaderLine (str ''Access-Control-Allow-Headers'') (StrVal (str ''Content-Type'')),
              EndHeaders,
              Body (concat (map utf8 (config_content ?m)))]\<rparr>,
          [])"
    by simp
  with dec len show ?thesis by blast
qed

text \<open>
  Claim C8 as first stated promises status 200 and the two headers for every request for
  \<open>/config.js\<close>. The request line \<open>GET /config.js\<close> without version is an \<open>HTTP/0.9\<close>
  request; with no environment file, the handler answers it with the encoded default
  payload and nothing else: no status line, no \<open>Content-type\<close>, no \<open>Content-Length\<close>.
\<close>

theorem config_js_http09_counterexample:
  "do_GET
     \<lparr>env_file_path = str ''webapp.env'', env_file_contents = None,
      version_string = str ''SimpleHTTP/0.6 Python/3.12.3'',
      date_time_string = str ''Tue, 03 Nov 2026 10:00:00 GMT'',
      static_file = (\<lambda>p. (404, [], []))\<rparr>
     (new_handler (str ''HTTP/0.9'') (str ''/config.js'')) =
     Inr (\<lparr>request_version = str ''HTTP/0.9'', path = str ''/config.js'', headers_buffer = [],
           wfile = [Body (concat (map utf8 (config_content default_env_vars)))]\<rparr>,
          [str ''Warning: '' @ str ''webapp.env'' @ str '' not found. Using default values.'']) \<and>
   StatusLine 200 \<notin> set [Body (concat (map utf8 (config_content default_env_vars)))] \<and>
   HeaderLine (str ''Content-type'') (StrVal (str ''application/javascript''))
     \<notin> set [Body (concat (map utf8 (config_content default_env_vars)))] \<and>
   HeaderLine (str ''Content-Length'')
       (IntVal (int (length (concat (map utf8 (config_content default_env_vars))))))
     \<notin> set [Body (concat (map utf8 (config_content default_env_vars)))]"
  by (simp add: do_GET_def load_env_file_def encode_default_payload new_handler_def handler_defs)

text \<open>
  Claim C7. The server reads the environment file anew for every request for
  \<open>/config.js\<close>: in a run of requests, each served in the world of its own time, the body
  of the answer to such a request is the encoded payload of the mapping loaded from the
  file as it is when that request is served, whatever the file held at earlier requests
  and whatever the version of the request.
\<close>

theorem reload_per_request:
  assumes "i < length requests" and "requests ! i = (w, v, str ''/config.js'')"
    and "\<And>t. env_file_contents w = Some t \<Longrightarrow> decoded t"
  shows "\<exists>env_vars printed h.
    load_env_file (env_file_path w) (env_file_contents w) = Inr (env_vars, printed) \<and>
    serve_forever requests ! i = Inr (h, printed) \<and>
    last (wfile h) = Body (concat (map utf8 (config_content env_vars)))"
proof -
  have p: "path (new_handler v (str ''/config.js'')) = str ''/config.js''"
    by (simp add: new_handler_def)
  have "serve_forever requests ! i = do_GET w (new_handler v (str ''/config.js''))"
    using assms(1,2) by (rule serve_forever_nth)
  with do_GET_config [OF p assms(3)] show ?thesis
    by (fastforce simp: last_wfile_write)
qed

theorem reload_per_request_witness:
  "(case serve_forever
      [(\<lparr>env_file_path = str ''webapp.env'', env_file_contents = Some (str ''N8N_API_KEY=one''),
         version_string = str ''SimpleHTTP/0.6'', date_time_string = str ''Tue, 03 Nov 2026'',
         static_file = (\<lambda>p. (404, [], []))\<rparr>, str ''HTTP/1.1'', str ''/config.js''),
       (\<lparr>env_file_path = str ''webapp.env'', env_file_contents = Some (str ''N8N_API_KEY=two''),
         version_string = str ''SimpleHTTP/0.6'', date_time_string = str ''Tue, 03 Nov 2026'',
         static_file = (\<lambda>p. (404, [], []))\<rparr>, str ''HTTP/0.9'', str ''/config.js'')] ! 0 of
      Inl e \<Rightarrow> False
    | Inr (h, printed) \<Rightarrow>
        last (wfile h) =
        Body (concat (map utf8 (config_content [str ''N8N_API_KEY'' \<mapsto> str ''one''])))) \<and>
   (case serve_forever
      [(\<lparr>env_file_path = str ''webapp.env'', env_file_contents = Some (str ''N8N_API_KEY=one''),
         version_string = str ''SimpleHTTP/0.6'', date_time_string = str ''Tue, 03 Nov 2026'',
         static_file = (\<lambda>p. (404, [], []))\<rparr>, str ''HTTP/1.1'', str ''/config.js''),
       (\<lparr>env_file_path = str ''webapp.env'', env_file_contents = Some (str ''N8N_API_KEY=two''),
         version_string = str ''SimpleHTTP/0.6'', date_time_string = str ''Tue, 03 Nov 2026'',
         static_file = (\<lambda>p. (404, [], []))\<rparr>, str ''HTTP/0.9'', str ''/config.js'')] ! 1 of
      Inl e \<Rightarrow> False
    | Inr (h, printed) \<Rightarrow>
        last (wfile h) =
        Body (concat (map utf8 (config_content [str ''N8N_API_KEY'' \<mapsto> str ''two''])))) \<and>
   config_content [str ''N8N_API_KEY'' \<mapsto> str ''one''] \<noteq>
   config_content [str ''N8N_API_KEY'' \<mapsto> str ''two'']"
proof -
  let ?w1 = "\<lparr>env_file_path = str ''webapp.env'', env_file_contents = Some (str ''N8N_API_KEY=one''),
         version_string = str ''SimpleHTTP/0.6'', date_time_string = str ''Tue, 03 Nov 2026'',
         static_file = (\<lambda>p. (404, [], []))\<rparr>"
  let ?w2 = "\<lparr>env_file_path = str ''webapp.env'', env_file_contents = Some (str ''N8N_API_KEY=two''),
         version_string = str ''SimpleHTTP/0.6'', date_time_string = str ''Tue, 03 Nov 2026'',
         static_file = (\<lambda>p. (404, [], []))\<rparr>"
  let ?requests = "[(?w1, str ''HTTP/1.1'', str ''/config.js''),
                    (?w2, str ''HTTP/0.9'', str ''/config.js'')]"
  have d1: "\<And>t. env_file_contents ?w1 = Some t \<Longrightarrow> decoded t"
    and d2: "\<And>t. env_file_contents ?w2 = Some t \<Longrightarrow> decoded t"
    by (auto simp: decoded_str)
  have l1: "load_env_file (env_file_path ?w1) (env_file_contents ?w1) =
      Inr ([str ''N8N_API_KEY'' \<mapsto> str ''one''], [])"
    and l2: "load_env_file (env_file_path ?w2) (env_file_contents ?w2) =
      Inr ([str ''N8N_API_KEY'' \<mapsto> str ''two''], [])"
    by (simp_all add: load_env_file_def readlines_def process_line_def py_defs)
  have i1: "0 < length ?requests" "?requests ! 0 = (?w1, str ''HTTP/1.1'', str ''/config.js'')"
    and i2: "1 < length ?requests" "?requests ! 1 = (?w2, str ''HTTP/0.9'', str ''/config.js'')"
    by simp_all
  from reload_per_request [OF i1 d1]
  obtain env_vars printed h
    where "load_env_file (env_file_path ?w1) (env_file_contents ?w1) = Inr (env_vars, printed)"
      and "serve_forever ?requests ! 0 = Inr (h, printed)"
      and "last (wfile h) = Body (concat (map utf8 (config_content env_vars)))"
    by blast
  with l1 have r1: "case serve_forever ?requests ! 0 of Inl e \<Rightarrow> False
    | Inr (h, printed) \<Rightarrow>
        last (wfile h) =
        Body (concat (map utf8 (config_content [str ''N8N_API_KEY'' \<mapsto> str ''one''])))"
    by simp
  from reload_per_request [OF i2 d2]
  obtain env_vars' printed' h'
    where "load_env_file (env_file_path ?w2) (env_file_contents ?w2) = Inr (env_vars', printed')"
      and "serve_forever ?requests ! 1 = Inr (h', printed')"
      and "last (wfile h') = Body (concat (map utf8 (config_content env_vars')))"
    by blast
  with l2 have r2: "case serve_forever ?requests ! 1 of Inl e \<Rightarrow> False
    | Inr (h, printed) \<Rightarrow>
        last (wfile h) =
        Body (concat (map utf8 (config_content [str ''N8N_API_KEY'' \<mapsto> str ''two''])))"
    by simp
  have "config_content [str ''N8N_API_KEY'' \<mapsto> str ''one''] \<noteq>
      config_content [str ''N8N_API_KEY'' \<mapsto> str ''two'']"
    by (simp add: config_content_def get_def str_def)
  with r1 r2 show ?thesis by blast
qed

text \<open>
  Claim C9, as amended. Every response of the handler to a request that carries an HTTP
  version other than \<open>HTTP/0.9\<close> carries the three CORS headers: whenever \<open>do_GET\<close>
  returns for such a request, for \<open>/config.js\<close> or for any other path, and whatever status
  the static file serving of the library chose (404 among them), the headers
  \<open>Access-Control-Allow-Origin: *\<close>, \<open>Access-Control-Allow-Methods: GET, POST, OPTIONS\<close>
  and \<open>Access-Control-Allow-Headers: Content-Type\<close> are among what was written.
\<close>

theorem cors_headers_on_every_response:
  assumes "do_GET w h = Inr (h', printed)" and "request_version h \<noteq> str ''HTTP/0.9''"
  shows "HeaderLine (str ''Access-Control-Allow-Origin'') (StrVal (str ''*'')) \<in> set (wfile h') \<and>
    HeaderLine (str ''Access-Control-Allow-Methods'') (StrVal (str ''GET, POST, OPTIONS''))
      \<in> set (wfile h') \<and>
    HeaderLine (str ''Access-Control-Allow-Headers'') (StrVal (str ''Content-Type''))
      \<in> set (wfile h')"
proof -
  have "\<exists>body x. h' = wfile_write body (end_headers x) \<and> request_version x = request_version h"
  proof (cases "path h = str ''/config.js''")
    case True
    with assms(1) obtain body where "h' =
        wfile_write body
          (end_headers
             (send_header (str ''Content-Length'') (IntVal (int (length body)))
                (send_header (str ''Content-type'') (StrVal (str ''application/javascript''))
                   (send_response w 200 h))))"
      by (auto simp: do_GET_def split: sum.splits prod.splits)
    moreover have "request_version
        (send_header (str ''Content-Length'') (IntVal (int (length body)))
           (send_header (str ''Content-type'') (StrVal (str ''application/javascript''))
              (send_response w 200 h))) = request_version h"
      by (simp add: request_version_send_header request_version_send_response)
    ultimately show ?thesis by blast
  next
    case False
    obtain code hs body where s: "static_file w (path h) = (code, hs, body)"
      by (cases "static_file w (path h)")
    with False assms(1) have "h' =
        wfile_write body
          (end_headers (fold (\<lambda>(keyword, v). send_header keyword v) hs (send_response w code h)))"
      by (simp add: do_GET_def simple_do_GET_def)
    moreover have "request_version
        (fold (\<lambda>(keyword, v). send_header keyword v) hs (send_response w code h)) =
        request_version h"
      by (simp add: request_version_send_headers request_version_send_response)
    ultimately show ?thesis by blast
  qed
  then obtain body x where "h' = wfile_write body (end_headers x)"
    and "request_version x \<noteq> str ''HTTP/0.9''"
    using assms(2) by auto
  then show ?thesis
    by (simp add: wfile_ended)
qed

theorem cors_headers_on_every_response_witness:
  "str ''HTTP/1.0'' \<noteq> str ''HTTP/0.9'' \<and>
   (case do_GET
      \<lparr>env_file_path = str ''webapp.env'', env_file_contents = None,
       version_string = str ''SimpleHTTP/0.6'', date_time_string = str ''Tue, 03 Nov 2026'',
       static_file = (\<lambda>p. (404, [(str ''Connection'', StrVal (str ''close''))], []))\<rparr>
      (new_handler (str ''HTTP/1.0'') (str ''/missing.html'')) of
      Inl e \<Rightarrow> False
    | Inr (h, printed) \<Rightarrow>
        wfile h =
          [StatusLine 404,
           HeaderLine (str ''Server'') (StrVal (str ''SimpleHTTP/0.6'')),
           HeaderLine (str ''Date'') (StrVal (str ''Tue, 03 Nov 2026'')),
           HeaderLine (str ''Connection'') (StrVal (str ''close'')),
           HeaderLine (str ''Access-Control-Allow-Origin'') (StrVal (str ''*'')),
           HeaderLine (str ''Access-Control-Allow-Methods'') (StrVal (str ''GET, POST, OPTIONS'')),
           HeaderLine (str ''Access-Control-Allow-Headers'') (StrVal (str ''Content-Type'')),
           EndHeaders, Body []] \<and>
        HeaderLine (str ''Access-Control-Allow-Origin'') (StrVal (str ''*'')) \<in> set (wfile h) \<and>
        HeaderLine (str ''Access-Control-Allow-Methods'') (StrVal (str ''GET, POST, OPTIONS''))
          \<in> set (wfile h) \<and>
        HeaderLine (str ''Access-Control-Allow-Headers'') (StrVal (str ''Content-Type''))
          \<in> set (wfile h))"
proof -
  let ?w = "\<lparr>env_file_path = str ''webapp.env'', env_file_contents = None,
       version_string = str ''SimpleHTTP/0.6'', date_time_string = str ''Tue, 03 Nov 2026'',
       static_file = (\<lambda>p. (404, [(str ''Connection'', StrVal (str ''close''))], []))\<rparr>"
  let ?h = "\<lparr>request_version = str ''HTTP/1.0'', path = str ''/missing.html'', headers_buffer = [],
       wfile =
          [StatusLine 404,
           HeaderLine (str ''Server'') (StrVal (str ''SimpleHTTP/0.6'')),
           HeaderLine (str ''Date'') (StrVal (str ''Tue, 03 Nov 2026'')),
           HeaderLine (str ''Connection'') (StrVal (str ''close'')),
           HeaderLine (str ''Access-Control-Allow-Origin'') (StrVal (str ''*'')),
           HeaderLine (str ''Access-Control-Allow-Methods'') (StrVal (str ''GET, POST, OPTIONS'')),
           HeaderLine (str ''Access-Control-Allow-Headers'') (StrVal (str ''Content-Type'')),
           EndHeaders, Body []]\<rparr>"
  have v: "str ''HTTP/1.0'' \<noteq> str ''HTTP/0.9''"
    by (simp add: str_def)
  then have rv: "request_version (new_handler (str ''HTTP/1.0'') (str ''/missing.html'')) \<noteq>
      str ''HTTP/0.9''"
    by (simp add: new_handler_def)
  have "str ''/missing.html'' \<noteq> str ''/config.js''"
    by (simp add: str_def)
  with v have d: "do_GET ?w (new_handler (str ''HTTP/1.0'') (str ''/missing.html'')) = Inr (?h, [])"
    by (simp add: do_GET_def simple_do_GET_def new_handler_def handler_defs)
  from cors_headers_on_every_response [OF d rv] d v show ?thesis
    by simp
qed

text \<open>
  Claim C9 as first stated promises the CORS headers on every response. For an
  \<open>HTTP/0.9\<close> request the library writes no header at all: the answer to \<open>GET /config.js\<close>
  without version is the encoded payload alone, and the answer to a request without
  version for a path that the static file serving answers with 404 is the body alone.
\<close>

theorem cors_headers_http09_counterexample:
  "do_GET
     \<lparr>env_file_path = str ''webapp.env'', env_file_contents = None,
      version_string = str ''SimpleHTTP/0.6'', date_time_string = str ''Tue, 03 Nov 2026'',
      static_file = (\<lambda>p. (404, [(str ''Connection'', StrVal (str ''close''))], []))\<rparr>
     (new_handler (str ''HTTP/0.9'') (str ''/missing.html'')) =
     Inr (\<lparr>request_version = str ''HTTP/0.9'', path = str ''/missing.html'',
           headers_buffer = [], wfile = [Body []]\<rparr>, []) \<and>
   HeaderLine (str ''Access-Control-Allow-Origin'') (StrVal (str ''*'')) \<notin> set [Body []] \<and>
   do_GET
     \<lparr>env_file_path = str ''webapp.env'', env_file_contents = None,
      version_string = str ''SimpleHTTP/0.6'', date_time_string = str ''Tue, 03 Nov 2026'',
      static_file = (\<lambda>p. (404, [(str ''Connection'', StrVal (str ''close''))], []))\<rparr>
     (new_handler (str ''HTTP/0.9'') (str ''/config.js'')) =
     Inr (\<lparr>request_version = str ''HTTP/0.9'', path = str ''/config.js'', headers_buffer = [],
           wfile = [Body (concat (map utf8 (config_content default_env_vars)))]\<rparr>,
          [str ''Warning: '' @ str ''webapp.env'' @ str '' not found. Using default values.'']) \<and>
   HeaderLine (str ''Access-Control-Allow-Origin'') (StrVal (str ''*''))
     \<notin> set [Body (concat (map utf8 (config_content default_env_vars)))]"
proof -
  have "str ''/missing.html'' \<noteq> str ''/config.js''"
    by (simp add: str_def)
  then show ?thesis
    by (simp add: do_GET_def simple_do_GET_def load_env_file_def encode_default_payload
        new_handler_def handler_defs)
qed

end
